theory Spec2Isabelle
  imports Main "HOL-Library.Word"
begin

section \<open>The atomic operations of \<open>stdatomic.h\<close> that the header forwards to\<close>

text \<open>
  \<open>CPenguinParallel.h\<close> consists of forced-inline wrappers, each of which is a single
  call of a C11 atomic operation on the one field of a cell. The operations are
  type-generic in C; here they are generic in the width of the word. An atomic object
  is represented by the value it holds, and every operation takes the object (and,
  for compare-and-exchange, the contents of \<open>*expected\<close>) and returns what the call
  returns together with the contents of the locations it may have written.
\<close>

text \<open>The enumeration \<open>memory_order\<close> of C11 (7.17.3), in its declared order.\<close>

datatype memory_order =
    memory_order_relaxed
  | memory_order_consume
  | memory_order_acquire
  | memory_order_release
  | memory_order_acq_rel
  | memory_order_seq_cst

text \<open>\<open>atomic_store_explicit(object, desired, order)\<close>: the object afterwards.\<close>

definition atomic_store_explicit :: "'a::len word \<Rightarrow> 'a word \<Rightarrow> memory_order \<Rightarrow> 'a word" where
  "atomic_store_explicit obj desired order = desired"

text \<open>\<open>atomic_load_explicit(object, order)\<close>: the value read.\<close>

definition atomic_load_explicit :: "'a::len word \<Rightarrow> memory_order \<Rightarrow> 'a word" where
  "atomic_load_explicit obj order = obj"

text \<open>
  What one compare-and-exchange leaves behind: the \<open>_Bool\<close> it returns, the object
  afterwards, the contents of \<open>*expected\<close> afterwards, and the memory order that
  governs the outcome taken (the \<open>success\<close> argument when the exchange happened, the
  \<open>failure\<close> argument when it did not; C11 7.17.7.4).
\<close>

record ('obj, 'v) cmpxchg =
  returned :: bool
  object :: 'obj
  expected :: 'v
  applied :: memory_order

text \<open>
  \<open>atomic_compare_exchange_strong_explicit(object, expected, desired, success, failure)\<close>:
  compares the object with \<open>*expected\<close>; if equal, stores \<open>desired\<close> in the object
  and returns true; otherwise stores the object's value in \<open>*expected\<close> and returns
  false.
\<close>

definition atomic_compare_exchange_strong_explicit ::
  "'a::len word \<Rightarrow> 'a word \<Rightarrow> 'a word \<Rightarrow> memory_order \<Rightarrow> memory_order
     \<Rightarrow> ('a word, 'a word) cmpxchg" where
  "atomic_compare_exchange_strong_explicit obj expect desired success failure =
     (if obj = expect
      then \<lparr>returned = True, object = desired, expected = expect, applied = success\<rparr>
      else \<lparr>returned = False, object = obj, expected = obj, applied = failure\<rparr>)"

text \<open>
  \<open>atomic_compare_exchange_weak_explicit\<close>: as the strong form, except that it
  "may fail spuriously": even when the object and \<open>*expected\<close> are equal it may
  return false and store back to \<open>*expected\<close> the contents that were there. Whether
  this attempt fails spuriously is the platform's choice, the first argument.
\<close>

definition atomic_compare_exchange_weak_explicit ::
  "bool \<Rightarrow> 'a::len word \<Rightarrow> 'a word \<Rightarrow> 'a word \<Rightarrow> memory_order \<Rightarrow> memory_order
     \<Rightarrow> ('a word, 'a word) cmpxchg" where
  "atomic_compare_exchange_weak_explicit spurious obj expect desired success failure =
     (if obj = expect \<and> \<not> spurious
      then \<lparr>returned = True, object = desired, expected = expect, applied = success\<rparr>
      else \<lparr>returned = False, object = obj, expected = obj, applied = failure\<rparr>)"

text \<open>
  \<open>atomic_fetch_add_explicit\<close> and \<open>atomic_fetch_sub_explicit\<close>: the value before the
  operation, and the object afterwards; unsigned arithmetic wraps. The forms without
  an order argument are the explicit forms at \<open>memory_order_seq_cst\<close>.
\<close>

definition atomic_fetch_add_explicit ::
  "'a::len word \<Rightarrow> 'a word \<Rightarrow> memory_order \<Rightarrow> 'a word \<times> 'a word" where
  "atomic_fetch_add_explicit obj operand order = (obj, obj + operand)"

definition atomic_fetch_sub_explicit ::
  "'a::len word \<Rightarrow> 'a word \<Rightarrow> memory_order \<Rightarrow> 'a word \<times> 'a word" where
  "atomic_fetch_sub_explicit obj operand order = (obj, obj - operand)"

definition atomic_fetch_add :: "'a::len word \<Rightarrow> 'a word \<Rightarrow> 'a word \<times> 'a word" where
  "atomic_fetch_add obj operand = atomic_fetch_add_explicit obj operand memory_order_seq_cst"

definition atomic_fetch_sub :: "'a::len word \<Rightarrow> 'a word \<Rightarrow> 'a word \<times> 'a word" where
  "atomic_fetch_sub obj operand = atomic_fetch_sub_explicit obj operand memory_order_seq_cst"

text \<open>\<open>atomic_thread_fence(order)\<close> touches no object and returns nothing.\<close>

definition atomic_thread_fence :: "memory_order \<Rightarrow> unit" where
  "atomic_thread_fence order = ()"


section \<open>The 64-bit cell\<close>

text \<open>
  \<open>struct CAtomicUInt64 { atomic_uint_least64_t value; }\<close>. The field is \<open>value\<close> in
  the source; that word is reserved here, hence \<open>value64\<close>. Every value that enters
  the field is a \<open>uint64_t\<close>, and \<open>atomic_uint_least64_t\<close> is taken to be 64 bits
  wide.
\<close>

record CAtomicUInt64 =
  value64 :: "64 word"

definition nbc_set_relaxed_atomic :: "CAtomicUInt64 \<Rightarrow> 64 word \<Rightarrow> CAtomicUInt64" where
  "nbc_set_relaxed_atomic obj v =
     obj\<lparr>value64 := atomic_store_explicit (value64 obj) v memory_order_relaxed\<rparr>"

definition nbc_load_relaxed :: "CAtomicUInt64 \<Rightarrow> 64 word" where
  "nbc_load_relaxed obj = atomic_load_explicit (value64 obj) memory_order_relaxed"

definition nbc_load_acquire :: "CAtomicUInt64 \<Rightarrow> 64 word" where
  "nbc_load_acquire obj = atomic_load_explicit (value64 obj) memory_order_acquire"

definition nbc_load_seqcst :: "CAtomicUInt64 \<Rightarrow> 64 word" where
  "nbc_load_seqcst obj = atomic_load_explicit (value64 obj) memory_order_seq_cst"

text \<open>
  The three compare-and-swap wrappers take the cell, the contents of \<open>*orig\<close> and the
  new value; \<open>object\<close> of the result is the cell afterwards and \<open>expected\<close> is
  \<open>*orig\<close> afterwards. The leading argument is the platform's choice of a spurious
  failure for this attempt. \<open>in_cell64\<close> carries the outcome of the operation on
  \<open>obj->value\<close> over to the cell \<open>obj\<close>.
\<close>

definition in_cell64 :: "CAtomicUInt64 \<Rightarrow> (64 word, 64 word) cmpxchg \<Rightarrow> (CAtomicUInt64, 64 word) cmpxchg" where
  "in_cell64 obj r =
     \<lparr>returned = returned r, object = obj\<lparr>value64 := object r\<rparr>,
      expected = expected r, applied = applied r\<rparr>"

definition nbc_cmpxchg_acqrel ::
  "bool \<Rightarrow> CAtomicUInt64 \<Rightarrow> 64 word \<Rightarrow> 64 word \<Rightarrow> (CAtomicUInt64, 64 word) cmpxchg" where
  "nbc_cmpxchg_acqrel spurious obj orig new =
     in_cell64 obj (atomic_compare_exchange_weak_explicit spurious (value64 obj) orig new
       memory_order_acq_rel memory_order_relaxed)"

definition nbc_cmpxchg_seqcst ::
  "bool \<Rightarrow> CAtomicUInt64 \<Rightarrow> 64 word \<Rightarrow> 64 word \<Rightarrow> (CAtomicUInt64, 64 word) cmpxchg" where
  "nbc_cmpxchg_seqcst spurious obj orig new =
     in_cell64 obj (atomic_compare_exchange_weak_explicit spurious (value64 obj) orig new
       memory_order_seq_cst memory_order_relaxed)"

definition nbc_cmpxchg_relaxed ::
  "bool \<Rightarrow> CAtomicUInt64 \<Rightarrow> 64 word \<Rightarrow> 64 word \<Rightarrow> (CAtomicUInt64, 64 word) cmpxchg" where
  "nbc_cmpxchg_relaxed spurious obj orig new =
     in_cell64 obj (atomic_compare_exchange_weak_explicit spurious (value64 obj) orig new
       memory_order_relaxed memory_order_relaxed)"

text \<open>The value returned, and the cell afterwards.\<close>

definition nbc_fetch_add :: "CAtomicUInt64 \<Rightarrow> 64 word \<Rightarrow> 64 word \<times> CAtomicUInt64" where
  "nbc_fetch_add obj amount =
     (case atomic_fetch_add (value64 obj) amount of
        (old, v) \<Rightarrow> (old, obj\<lparr>value64 := v\<rparr>))"

definition nbc_fetch_sub :: "CAtomicUInt64 \<Rightarrow> 64 word \<Rightarrow> 64 word \<times> CAtomicUInt64" where
  "nbc_fetch_sub obj amount =
     (case atomic_fetch_sub (value64 obj) amount of
        (old, v) \<Rightarrow> (old, obj\<lparr>value64 := v\<rparr>))"

definition nbc_thread_fence_seqcst :: unit where
  "nbc_thread_fence_seqcst = atomic_thread_fence memory_order_seq_cst"

definition nbc_thread_fence_acquire :: unit where
  "nbc_thread_fence_acquire = atomic_thread_fence memory_order_acquire"


section \<open>The 8-bit cell\<close>

text \<open>\<open>struct CAtomicUInt8 { atomic_uchar value; }\<close>, with \<open>unsigned char\<close> of 8 bits.\<close>

record CAtomicUInt8 =
  value8 :: "8 word"

definition ac_load_relaxed :: "CAtomicUInt8 \<Rightarrow> 8 word" where
  "ac_load_relaxed obj = atomic_load_explicit (value8 obj) memory_order_relaxed"

definition ac_load_acquire :: "CAtomicUInt8 \<Rightarrow> 8 word" where
  "ac_load_acquire obj = atomic_load_explicit (value8 obj) memory_order_acquire"

definition ac_store_relaxed :: "CAtomicUInt8 \<Rightarrow> 8 word \<Rightarrow> CAtomicUInt8" where
  "ac_store_relaxed obj v =
     obj\<lparr>value8 := atomic_store_explicit (value8 obj) v memory_order_relaxed\<rparr>"

definition ac_store_release :: "CAtomicUInt8 \<Rightarrow> 8 word \<Rightarrow> CAtomicUInt8" where
  "ac_store_release obj v =
     obj\<lparr>value8 := atomic_store_explicit (value8 obj) v memory_order_release\<rparr>"

text \<open>\<open>in_cell8\<close> is \<open>in_cell64\<close> for the 8-bit cell.\<close>

definition in_cell8 :: "CAtomicUInt8 \<Rightarrow> (8 word, 8 word) cmpxchg \<Rightarrow> (CAtomicUInt8, 8 word) cmpxchg" where
  "in_cell8 obj r =
     \<lparr>returned = returned r, object = obj\<lparr>value8 := object r\<rparr>,
      expected = expected r, applied = applied r\<rparr>"

definition ac_cmpxchg_strong_acquire ::
  "CAtomicUInt8 \<Rightarrow> 8 word \<Rightarrow> 8 word \<Rightarrow> (CAtomicUInt8, 8 word) cmpxchg" where
  "ac_cmpxchg_strong_acquire obj orig new =
     in_cell8 obj (atomic_compare_exchange_strong_explicit (value8 obj) orig new
       memory_order_acquire memory_order_relaxed)"


section \<open>Unfolding the wrappers\<close>

lemmas atomic_defs =
  atomic_store_explicit_def atomic_load_explicit_def
  atomic_fetch_add_explicit_def atomic_fetch_sub_explicit_def
  atomic_fetch_add_def atomic_fetch_sub_def

lemmas nbc_cmpxchg_defs =
  nbc_cmpxchg_acqrel_def nbc_cmpxchg_seqcst_def nbc_cmpxchg_relaxed_def in_cell64_def
  atomic_compare_exchange_weak_explicit_def

lemmas ac_cmpxchg_defs =
  ac_cmpxchg_strong_acquire_def in_cell8_def atomic_compare_exchange_strong_explicit_def


section \<open>Fetch-and-add, fetch-and-subtract\<close>

text \<open>
  C3. For every starting value \<open>old\<close> of the cell and every amount, \<open>nbc_fetch_add\<close>
  and \<open>nbc_fetch_sub\<close> return \<open>old\<close> and leave the cell holding
  \<open>(old + amount) mod 2^64\<close>, respectively \<open>(old - amount) mod 2^64\<close>; and
  \<open>nbc_fetch_add\<close> with amount 1 on a cell holding \<open>2^64 - 1\<close> returns \<open>2^64 - 1\<close>
  and leaves the cell at 0.
\<close>

theorem fetch_add_sub_wraps:
  "fst (nbc_fetch_add obj amount) = value64 obj
   \<and> unat (value64 (snd (nbc_fetch_add obj amount)))
       = (unat (value64 obj) + unat amount) mod 2 ^ 64
   \<and> fst (nbc_fetch_sub obj amount) = value64 obj
   \<and> uint (value64 (snd (nbc_fetch_sub obj amount)))
       = (uint (value64 obj) - uint amount) mod 2 ^ 64
   \<and> unat (fst (nbc_fetch_add \<lparr>value64 = 18446744073709551615\<rparr> 1)) = 2 ^ 64 - 1
   \<and> unat (value64 (snd (nbc_fetch_add \<lparr>value64 = 18446744073709551615\<rparr> 1))) = 0"
  by (simp add: nbc_fetch_add_def nbc_fetch_sub_def atomic_defs
      unat_word_ariths uint_word_ariths)


text \<open>
  C10. For every starting value \<open>v\<close> and every amount \<open>a\<close>, \<open>nbc_fetch_add\<close> of \<open>a\<close>
  followed by \<open>nbc_fetch_sub\<close> of \<open>a\<close> on the same cell leaves the cell as it was,
  and the second call returns \<open>(v + a) mod 2^64\<close>.
\<close>

theorem fetch_sub_inverts_fetch_add:
  "snd (nbc_fetch_sub (snd (nbc_fetch_add obj a)) a) = obj
   \<and> value64 (snd (nbc_fetch_sub (snd (nbc_fetch_add obj a)) a)) = value64 obj
   \<and> fst (nbc_fetch_sub (snd (nbc_fetch_add obj a)) a) = value64 obj + a
   \<and> unat (fst (nbc_fetch_sub (snd (nbc_fetch_add obj a)) a))
       = (unat (value64 obj) + unat a) mod 2 ^ 64"
  by (simp add: nbc_fetch_add_def nbc_fetch_sub_def atomic_defs unat_word_ariths)


section \<open>Stores and loads\<close>

text \<open>The cell after a sequence of \<open>nbc_set_relaxed_atomic\<close> calls, in order.\<close>

lemma value64_after_stores:
  "value64 (foldl nbc_set_relaxed_atomic obj vs) = last (value64 obj # vs)"
proof (induction vs arbitrary: obj)
  case Nil
  show ?case by simp
next
  case (Cons v vs)
  have "value64 (nbc_set_relaxed_atomic obj v) = v"
    by (simp add: nbc_set_relaxed_atomic_def atomic_store_explicit_def)
  with Cons.IH [of "nbc_set_relaxed_atomic obj v"] show ?case
    by simp
qed

text \<open>
  C6. On one thread, for every initial value and every finite sequence of
  \<open>nbc_set_relaxed_atomic\<close> calls on a cell, a following \<open>nbc_load_relaxed\<close>,
  \<open>nbc_load_acquire\<close> or \<open>nbc_load_seqcst\<close> returns the value stored last (the
  initial value when the sequence is empty).
\<close>

theorem load_after_stores:
  "nbc_load_relaxed (foldl nbc_set_relaxed_atomic obj vs) = last (value64 obj # vs)
   \<and> nbc_load_acquire (foldl nbc_set_relaxed_atomic obj vs) = last (value64 obj # vs)
   \<and> nbc_load_seqcst (foldl nbc_set_relaxed_atomic obj vs) = last (value64 obj # vs)"
  by (simp only: nbc_load_relaxed_def nbc_load_acquire_def nbc_load_seqcst_def
      atomic_load_explicit_def value64_after_stores simp_thms)


section \<open>Compare-and-swap\<close>

text \<open>
  C1. If the cell holds \<open>X\<close> and a compare-and-swap is called with expected value \<open>X\<close>
  and new value \<open>Y\<close>, the call returns success and the cell afterwards holds \<open>Y\<close>:
  for the three 64-bit variants when the attempt does not fail spuriously, for
  \<open>ac_cmpxchg_strong_acquire\<close> always.
\<close>

theorem cmpxchg_succeeds_on_match:
  assumes "value64 obj = X" and "value8 flag = X8"
  shows "returned (nbc_cmpxchg_relaxed False obj X Y)
     \<and> value64 (object (nbc_cmpxchg_relaxed False obj X Y)) = Y
     \<and> returned (nbc_cmpxchg_acqrel False obj X Y)
     \<and> value64 (object (nbc_cmpxchg_acqrel False obj X Y)) = Y
     \<and> returned (nbc_cmpxchg_seqcst False obj X Y)
     \<and> value64 (object (nbc_cmpxchg_seqcst False obj X Y)) = Y
     \<and> returned (ac_cmpxchg_strong_acquire flag X8 Y8)
     \<and> value8 (object (ac_cmpxchg_strong_acquire flag X8 Y8)) = Y8"
  using assms by (simp add: nbc_cmpxchg_defs ac_cmpxchg_defs)

theorem cmpxchg_succeeds_on_match_witness:
  "value64 \<lparr>value64 = 7\<rparr> = 7 \<and> value8 \<lparr>value8 = 1\<rparr> = 1
   \<and> returned (nbc_cmpxchg_relaxed False \<lparr>value64 = 7\<rparr> 7 9)
   \<and> value64 (object (nbc_cmpxchg_relaxed False \<lparr>value64 = 7\<rparr> 7 9)) = 9
   \<and> returned (nbc_cmpxchg_acqrel False \<lparr>value64 = 7\<rparr> 7 9)
   \<and> value64 (object (nbc_cmpxchg_acqrel False \<lparr>value64 = 7\<rparr> 7 9)) = 9
   \<and> returned (nbc_cmpxchg_seqcst False \<lparr>value64 = 7\<rparr> 7 9)
   \<and> value64 (object (nbc_cmpxchg_seqcst False \<lparr>value64 = 7\<rparr> 7 9)) = 9
   \<and> returned (ac_cmpxchg_strong_acquire \<lparr>value8 = 1\<rparr> 1 2)
   \<and> value8 (object (ac_cmpxchg_strong_acquire \<lparr>value8 = 1\<rparr> 1 2)) = 2"
proof -
  have h64: "value64 \<lparr>value64 = 7\<rparr> = 7" by simp
  have h8: "value8 \<lparr>value8 = 1\<rparr> = 1" by simp
  show ?thesis
    using h64 h8 cmpxchg_succeeds_on_match [OF h64 h8, of 9 2] by simp
qed

text \<open>
  C2. For every compare-and-swap variant (the 64-bit weak ones, whatever the platform
  chooses, and the 8-bit strong one), whenever the cell's value differs from the
  expected value the call returns failure, the cell is unchanged, and the cell's value
  is written to the expected-value location.
\<close>

theorem cmpxchg_fails_on_mismatch:
  assumes "value64 obj \<noteq> orig" and "value8 flag \<noteq> orig8"
  shows "\<not> returned (nbc_cmpxchg_relaxed spurious obj orig new)
     \<and> object (nbc_cmpxchg_relaxed spurious obj orig new) = obj
     \<and> expected (nbc_cmpxchg_relaxed spurious obj orig new) = value64 obj
     \<and> \<not> returned (nbc_cmpxchg_acqrel spurious obj orig new)
     \<and> object (nbc_cmpxchg_acqrel spurious obj orig new) = obj
     \<and> expected (nbc_cmpxchg_acqrel spurious obj orig new) = value64 obj
     \<and> \<not> returned (nbc_cmpxchg_seqcst spurious obj orig new)
     \<and> object (nbc_cmpxchg_seqcst spurious obj orig new) = obj
     \<and> expected (nbc_cmpxchg_seqcst spurious obj orig new) = value64 obj
     \<and> \<not> returned (ac_cmpxchg_strong_acquire flag orig8 new8)
     \<and> object (ac_cmpxchg_strong_acquire flag orig8 new8) = flag
     \<and> expected (ac_cmpxchg_strong_acquire flag orig8 new8) = value8 flag"
  using assms by (simp add: nbc_cmpxchg_defs ac_cmpxchg_defs)

theorem cmpxchg_fails_on_mismatch_witness:
  "value64 \<lparr>value64 = 9\<rparr> \<noteq> 7 \<and> value8 \<lparr>value8 = 2\<rparr> \<noteq> 1
   \<and> \<not> returned (nbc_cmpxchg_relaxed False \<lparr>value64 = 9\<rparr> 7 9)
   \<and> object (nbc_cmpxchg_relaxed False \<lparr>value64 = 9\<rparr> 7 9) = \<lparr>value64 = 9\<rparr>
   \<and> expected (nbc_cmpxchg_relaxed False \<lparr>value64 = 9\<rparr> 7 9) = 9
   \<and> \<not> returned (nbc_cmpxchg_acqrel False \<lparr>value64 = 9\<rparr> 7 9)
   \<and> expected (nbc_cmpxchg_acqrel False \<lparr>value64 = 9\<rparr> 7 9) = 9
   \<and> \<not> returned (nbc_cmpxchg_seqcst False \<lparr>value64 = 9\<rparr> 7 9)
   \<and> expected (nbc_cmpxchg_seqcst False \<lparr>value64 = 9\<rparr> 7 9) = 9
   \<and> \<not> returned (ac_cmpxchg_strong_acquire \<lparr>value8 = 2\<rparr> 1 2)
   \<and> object (ac_cmpxchg_strong_acquire \<lparr>value8 = 2\<rparr> 1 2) = \<lparr>value8 = 2\<rparr>
   \<and> expected (ac_cmpxchg_strong_acquire \<lparr>value8 = 2\<rparr> 1 2) = 2"
proof -
  have h64: "value64 \<lparr>value64 = 9\<rparr> \<noteq> 7" by simp
  have h8: "value8 \<lparr>value8 = 2\<rparr> \<noteq> 1" by simp
  show ?thesis
    using h64 h8 cmpxchg_fails_on_mismatch [OF h64 h8, of False 9 2] by simp
qed

text \<open>
  C5. \<open>ac_cmpxchg_strong_acquire\<close> is a strong compare-and-swap: every call made with
  the expected value equal to the cell's value succeeds in that one call, leaving the
  new value in the cell. (The strong operation has no spurious failure to choose.)
\<close>

theorem strong_cmpxchg_never_fails_spuriously:
  assumes "value8 flag = X"
  shows "returned (ac_cmpxchg_strong_acquire flag X Y)
     \<and> object (ac_cmpxchg_strong_acquire flag X Y) = flag\<lparr>value8 := Y\<rparr>"
  using assms by (simp add: ac_cmpxchg_defs)

theorem strong_cmpxchg_never_fails_spuriously_witness:
  "value8 \<lparr>value8 = 0\<rparr> = 0
   \<and> returned (ac_cmpxchg_strong_acquire \<lparr>value8 = 0\<rparr> 0 255)
   \<and> object (ac_cmpxchg_strong_acquire \<lparr>value8 = 0\<rparr> 0 255) = \<lparr>value8 = 255\<rparr>"
proof -
  have h: "value8 \<lparr>value8 = 0\<rparr> = 0" by simp
  show ?thesis
    using h strong_cmpxchg_never_fails_spuriously [OF h, of 255] by simp
qed

text \<open>
  C8. For every compare-and-swap variant, when the call returns success the
  expected-value location still holds the value the caller passed in, which is the
  value the cell held before the swap.
\<close>

theorem cmpxchg_success_keeps_expected:
  "(returned (nbc_cmpxchg_relaxed spurious obj orig new) \<longrightarrow>
      expected (nbc_cmpxchg_relaxed spurious obj orig new) = orig \<and> orig = value64 obj)
   \<and> (returned (nbc_cmpxchg_acqrel spurious obj orig new) \<longrightarrow>
      expected (nbc_cmpxchg_acqrel spurious obj orig new) = orig \<and> orig = value64 obj)
   \<and> (returned (nbc_cmpxchg_seqcst spurious obj orig new) \<longrightarrow>
      expected (nbc_cmpxchg_seqcst spurious obj orig new) = orig \<and> orig = value64 obj)
   \<and> (returned (ac_cmpxchg_strong_acquire flag orig8 new8) \<longrightarrow>
      expected (ac_cmpxchg_strong_acquire flag orig8 new8) = orig8 \<and> orig8 = value8 flag)"
  by (simp add: nbc_cmpxchg_defs ac_cmpxchg_defs)

text \<open>The successful calls the witnesses below apply the theorems to.\<close>

lemma returned_at_5:
  "returned (nbc_cmpxchg_relaxed False \<lparr>value64 = 5\<rparr> 5 6)"
  "returned (nbc_cmpxchg_acqrel False \<lparr>value64 = 5\<rparr> 5 6)"
  "returned (nbc_cmpxchg_seqcst False \<lparr>value64 = 5\<rparr> 5 6)"
  "returned (ac_cmpxchg_strong_acquire \<lparr>value8 = 3\<rparr> 3 4)"
  by (simp_all add: nbc_cmpxchg_defs ac_cmpxchg_defs)

theorem cmpxchg_success_keeps_expected_witness:
  "returned (nbc_cmpxchg_relaxed False \<lparr>value64 = 5\<rparr> 5 6)
   \<and> expected (nbc_cmpxchg_relaxed False \<lparr>value64 = 5\<rparr> 5 6) = 5
   \<and> returned (nbc_cmpxchg_acqrel False \<lparr>value64 = 5\<rparr> 5 6)
   \<and> expected (nbc_cmpxchg_acqrel False \<lparr>value64 = 5\<rparr> 5 6) = 5
   \<and> returned (nbc_cmpxchg_seqcst False \<lparr>value64 = 5\<rparr> 5 6)
   \<and> expected (nbc_cmpxchg_seqcst False \<lparr>value64 = 5\<rparr> 5 6) = 5
   \<and> returned (ac_cmpxchg_strong_acquire \<lparr>value8 = 3\<rparr> 3 4)
   \<and> expected (ac_cmpxchg_strong_acquire \<lparr>value8 = 3\<rparr> 3 4) = 3"
  using returned_at_5
    cmpxchg_success_keeps_expected [of False "\<lparr>value64 = 5\<rparr>" 5 6 "\<lparr>value8 = 3\<rparr>" 3 4]
  by simp

text \<open>
  C9. No compare-and-swap variant succeeds spuriously: whenever one returns success,
  the cell's value equalled the expected value and the cell now holds the new value
  (and nothing else of the cell changed).
\<close>

theorem cmpxchg_success_only_on_match:
  "(returned (nbc_cmpxchg_relaxed spurious obj orig new) \<longrightarrow>
      value64 obj = orig
      \<and> object (nbc_cmpxchg_relaxed spurious obj orig new) = obj\<lparr>value64 := new\<rparr>)
   \<and> (returned (nbc_cmpxchg_acqrel spurious obj orig new) \<longrightarrow>
      value64 obj = orig
      \<and> object (nbc_cmpxchg_acqrel spurious obj orig new) = obj\<lparr>value64 := new\<rparr>)
   \<and> (returned (nbc_cmpxchg_seqcst spurious obj orig new) \<longrightarrow>
      value64 obj = orig
      \<and> object (nbc_cmpxchg_seqcst spurious obj orig new) = obj\<lparr>value64 := new\<rparr>)
   \<and> (returned (ac_cmpxchg_strong_acquire flag orig8 new8) \<longrightarrow>
      value8 flag = orig8
      \<and> object (ac_cmpxchg_strong_acquire flag orig8 new8) = flag\<lparr>value8 := new8\<rparr>)"
  by (simp add: nbc_cmpxchg_defs ac_cmpxchg_defs)

theorem cmpxchg_success_only_on_match_witness:
  "returned (nbc_cmpxchg_relaxed False \<lparr>value64 = 5\<rparr> 5 6)
   \<and> object (nbc_cmpxchg_relaxed False \<lparr>value64 = 5\<rparr> 5 6) = \<lparr>value64 = 6\<rparr>
   \<and> returned (nbc_cmpxchg_acqrel False \<lparr>value64 = 5\<rparr> 5 6)
   \<and> object (nbc_cmpxchg_acqrel False \<lparr>value64 = 5\<rparr> 5 6) = \<lparr>value64 = 6\<rparr>
   \<and> returned (nbc_cmpxchg_seqcst False \<lparr>value64 = 5\<rparr> 5 6)
   \<and> object (nbc_cmpxchg_seqcst False \<lparr>value64 = 5\<rparr> 5 6) = \<lparr>value64 = 6\<rparr>
   \<and> returned (ac_cmpxchg_strong_acquire \<lparr>value8 = 3\<rparr> 3 4)
   \<and> object (ac_cmpxchg_strong_acquire \<lparr>value8 = 3\<rparr> 3 4) = \<lparr>value8 = 4\<rparr>"
  using returned_at_5
    cmpxchg_success_only_on_match [of False "\<lparr>value64 = 5\<rparr>" 5 6 "\<lparr>value8 = 3\<rparr>" 3 4]
  by simp


section \<open>The orderings of the 64-bit compare-and-swap\<close>

text \<open>
  C4, as the specification states it, gives \<open>nbc_cmpxchg_acqrel\<close> acquire ordering on
  failure. The wrapper passes \<open>memory_order_relaxed\<close> as the failure order: a failing
  call on a cell holding 0 with expected value 1 is governed by relaxed ordering.
\<close>

theorem cmpxchg_acqrel_failure_not_acquire:
  "\<not> returned (nbc_cmpxchg_acqrel False \<lparr>value64 = 0\<rparr> 1 2)
   \<and> applied (nbc_cmpxchg_acqrel False \<lparr>value64 = 0\<rparr> 1 2) = memory_order_relaxed
   \<and> applied (nbc_cmpxchg_acqrel False \<lparr>value64 = 0\<rparr> 1 2) \<noteq> memory_order_acquire"
  by (simp add: nbc_cmpxchg_defs)

text \<open>
  C4, amended. \<open>nbc_cmpxchg_acqrel\<close> applies acquire-release ordering on success and
  relaxed ordering on failure; \<open>nbc_cmpxchg_seqcst\<close> applies sequentially consistent
  ordering on success and relaxed ordering on failure; \<open>nbc_cmpxchg_relaxed\<close> applies
  relaxed ordering in both outcomes.
\<close>

theorem cmpxchg_orderings:
  "applied (nbc_cmpxchg_acqrel spurious obj orig new)
     = (if returned (nbc_cmpxchg_acqrel spurious obj orig new)
        then memory_order_acq_rel else memory_order_relaxed)
   \<and> applied (nbc_cmpxchg_seqcst spurious obj orig new)
     = (if returned (nbc_cmpxchg_seqcst spurious obj orig new)
        then memory_order_seq_cst else memory_order_relaxed)
   \<and> applied (nbc_cmpxchg_relaxed spurious obj orig new) = memory_order_relaxed"
  by (simp add: nbc_cmpxchg_defs)

theorem cmpxchg_orderings_witness:
  "applied (nbc_cmpxchg_acqrel False \<lparr>value64 = 5\<rparr> 5 6) = memory_order_acq_rel
   \<and> applied (nbc_cmpxchg_seqcst False \<lparr>value64 = 5\<rparr> 5 6) = memory_order_seq_cst
   \<and> applied (nbc_cmpxchg_relaxed False \<lparr>value64 = 5\<rparr> 5 6) = memory_order_relaxed"
  using returned_at_5 cmpxchg_orderings [of False "\<lparr>value64 = 5\<rparr>" 5 6]
  by simp


section \<open>When a compare-and-swap fails\<close>




end
